theory Spec2Isabelle
  imports Complex_Main
begin

section \<open>Values, effects and the outside world\<close>

text \<open>
  The program is one React component (\<^verbatim>\<open>App\<close>). Its handlers are asynchronous functions
  that call state setters, the chain clients and the console. A handler is modelled as a
  computation that yields either a thrown value or a result, together with the ordered
  list of the effects it performed. The state after a handler has run is the state the
  component was rendered with, updated by the setter calls in order.
\<close>

datatype exn = Error string

text \<open>A JavaScript number, as far as \<^verbatim>\<open>parseFloat(amount) <= 0\<close> needs it.\<close>

datatype number = NaN | NegInfinity | Finite rat | PosInfinity

fun le_zero :: "number \<Rightarrow> bool" where
  "le_zero NaN = False"
| "le_zero NegInfinity = True"
| "le_zero (Finite q) = (q \<le> 0)"
| "le_zero PosInfinity = False"

text \<open>An argument of a contract call: an address string or an unsigned integer.\<close>

datatype arg = Str string | BigInt int

record write_request =
  address :: string
  functionName :: string
  args :: "arg list"
  maxFeePerGas :: "int option"
  account :: "string option"

datatype effect =
    SetTokenDecimals nat
  | SetBalance "nat option"
  | SetIsLoadingBalance bool
  | SetIsMinting bool
  | SetIsClaiming bool
  | SetError string
  | SetSuccess string
  | SetTxHash string
  | SetTxType string
  | ReadContract string string "arg list"
  | GetBalance string
  | WriteContract write_request
  | WaitForTransactionReceipt string
  | ConsoleWarn string exn
  | ConsoleError string exn
  | ConsoleLog string string

text \<open>
  The component state (the \<^verbatim>\<open>useState\<close> cells of \<^verbatim>\<open>App\<close>). \<^verbatim>\<open>balance\<close> is
  \<^verbatim>\<open>null\<close> or a big integer.
\<close>

record state =
  tokenAddress :: string
  receiverAddress :: string
  amount :: string
  isMinting :: bool
  isClaiming :: bool
  error :: string
  success :: string
  txHash :: string
  txType :: string
  balance :: "nat option"
  isLoadingBalance :: bool
  tokenDecimals :: nat

text \<open>
  What the component imports or reaches over the network, taken as parameters: the
  address check and the wallet client constructor of the chain library, the language's
  \<^verbatim>\<open>isNaN\<close>, \<^verbatim>\<open>parseFloat\<close> and \<^verbatim>\<open>Math.round(Number(s))\<close>, the module's
  \<^verbatim>\<open>publicClient\<close> (by its truthiness), the account of \<^verbatim>\<open>useAccount\<close>, and the answers
  of the chain to each request (\<open>Inl\<close> is a rejected promise or a thrown value). The
  ABI documents are not among the sources; a read returns the decoded unsigned integer.
\<close>

record env =
  isAddress :: "string \<Rightarrow> bool"
  isNaN :: "string \<Rightarrow> bool"
  parseFloat :: "string \<Rightarrow> number"
  mathRound :: "string \<Rightarrow> nat"
  publicClient :: bool
  connectedAddress :: "string option"
  readContract :: "string \<Rightarrow> string \<Rightarrow> arg list \<Rightarrow> exn + nat"
  getBalance :: "string \<Rightarrow> exn + nat"
  createWalletClient :: "exn + bool"
  writeContract :: "write_request \<Rightarrow> exn + string"
  waitForTransactionReceipt :: "string \<Rightarrow> exn + unit"

type_synonym 'a io = "(exn + 'a) \<times> effect list"

definition ret :: "'a \<Rightarrow> 'a io" where
  "ret v = (Inr v, [])"

definition throw :: "exn \<Rightarrow> 'a io" where
  "throw e = (Inl e, [])"

text \<open>A library call without observable effect: its value, or the value it throws.\<close>

definition lift :: "exn + 'a \<Rightarrow> 'a io" where
  "lift r = (r, [])"

definition emit :: "effect \<Rightarrow> unit io" where
  "emit e = (Inr (), [e])"

text \<open>An awaited request: the request is recorded, then the promise settles.\<close>

definition await :: "effect \<Rightarrow> exn + 'a \<Rightarrow> 'a io" where
  "await e r = (r, [e])"

definition bind_io :: "'a io \<Rightarrow> ('a \<Rightarrow> 'b io) \<Rightarrow> 'b io" where
  "bind_io m k =
     (case m of
        (Inl e, es) \<Rightarrow> (Inl e, es)
      | (Inr v, es) \<Rightarrow> (case k v of (r, es') \<Rightarrow> (r, es @ es')))"

definition seq :: "unit io \<Rightarrow> 'a io \<Rightarrow> 'a io" where
  "seq m n = bind_io m (\<lambda>_. n)"

definition try_catch :: "'a io \<Rightarrow> (exn \<Rightarrow> 'a io) \<Rightarrow> 'a io" where
  "try_catch body handler =
     (case body of
        (Inr v, es) \<Rightarrow> (Inr v, es)
      | (Inl e, es) \<Rightarrow> (case handler e of (r, es') \<Rightarrow> (r, es @ es')))"

text \<open>\<^verbatim>\<open>try { .. } finally { .. }\<close>: the final block runs on both exits.\<close>

definition try_finally :: "'a io \<Rightarrow> unit io \<Rightarrow> 'a io" where
  "try_finally body final =
     (case body of (r, es) \<Rightarrow>
        (case final of
           (Inl e, es') \<Rightarrow> (Inl e, es @ es')
         | (Inr _, es') \<Rightarrow> (r, es @ es')))"

fun apply_effect :: "state \<Rightarrow> effect \<Rightarrow> state" where
  "apply_effect s (SetTokenDecimals d) = s\<lparr>tokenDecimals := d\<rparr>"
| "apply_effect s (SetBalance b) = s\<lparr>balance := b\<rparr>"
| "apply_effect s (SetIsLoadingBalance b) = s\<lparr>isLoadingBalance := b\<rparr>"
| "apply_effect s (SetIsMinting b) = s\<lparr>isMinting := b\<rparr>"
| "apply_effect s (SetIsClaiming b) = s\<lparr>isClaiming := b\<rparr>"
| "apply_effect s (SetError m) = s\<lparr>error := m\<rparr>"
| "apply_effect s (SetSuccess m) = s\<lparr>success := m\<rparr>"
| "apply_effect s (SetTxHash h) = s\<lparr>txHash := h\<rparr>"
| "apply_effect s (SetTxType t) = s\<lparr>txType := t\<rparr>"
| "apply_effect s (ReadContract a f xs) = s"
| "apply_effect s (GetBalance a) = s"
| "apply_effect s (WriteContract w) = s"
| "apply_effect s (WaitForTransactionReceipt h) = s"
| "apply_effect s (ConsoleWarn m e) = s"
| "apply_effect s (ConsoleError m e) = s"
| "apply_effect s (ConsoleLog m h) = s"

definition after :: "state \<Rightarrow> 'a io \<Rightarrow> state" where
  "after s m = foldl apply_effect s (snd m)"

fun is_network :: "effect \<Rightarrow> bool" where
  "is_network (ReadContract a f xs) = True"
| "is_network (GetBalance a) = True"
| "is_network (WriteContract w) = True"
| "is_network (WaitForTransactionReceipt h) = True"
| "is_network e = False"

definition network_calls :: "'a io \<Rightarrow> effect list" where
  "network_calls m = filter is_network (snd m)"

section \<open>Constants of the module\<close>

definition faucetAddress :: string where
  "faucetAddress = ''0x8A3832136896229C281Dd0760FEF8E4CE4718587''"

definition zeroAddress :: string where
  "zeroAddress = ''0x0000000000000000000000000000000000000000''"

definition toLowerCase_char :: "char \<Rightarrow> char" where
  "toLowerCase_char c =
     (let n = (of_char c :: nat) in if 65 \<le> n \<and> n \<le> 90 then char_of (n + 32) else c)"

definition toLowerCase :: "string \<Rightarrow> string" where
  "toLowerCase s = map toLowerCase_char s"

section \<open>The decimals resolver and the balance fetcher\<close>

definition fetchTokenDecimals :: "env \<Rightarrow> string \<Rightarrow> nat io" where
  "fetchTokenDecimals w tokenAddr =
     (if \<not> publicClient w \<or> tokenAddr = [] \<or> \<not> isAddress w tokenAddr then
        seq (emit (SetTokenDecimals 18)) (ret 18)
      else if toLowerCase tokenAddr = toLowerCase zeroAddress then
        seq (emit (SetTokenDecimals 18)) (ret 18)
      else
        try_catch
          (bind_io (await (ReadContract tokenAddr ''decimals'' [])
                      (readContract w tokenAddr ''decimals'' [])) (\<lambda>decimals.
           let decimalsNum = decimals in
           seq (emit (SetTokenDecimals decimalsNum)) (ret decimalsNum)))
          (\<lambda>e.
           seq (emit (ConsoleWarn ''Failed to fetch token decimals, using default 18:'' e))
          (seq (emit (SetTokenDecimals 18)) (ret 18))))"

definition fetchBalance :: "env \<Rightarrow> string \<Rightarrow> unit io" where
  "fetchBalance w tokenAddr =
     (if \<not> publicClient w then ret ()
      else if tokenAddr = [] \<or> \<not> isAddress w tokenAddr then
        seq (emit (SetBalance None)) (emit (SetIsLoadingBalance False))
      else
        seq (emit (SetIsLoadingBalance True))
          (try_finally
             (try_catch
                (if toLowerCase tokenAddr = toLowerCase zeroAddress then
                   bind_io (await (GetBalance faucetAddress) (getBalance w faucetAddress))
                     (\<lambda>ethBalance.
                   seq (emit (SetBalance (Some ethBalance))) (emit (SetTokenDecimals 18)))
                 else
                   bind_io (fetchTokenDecimals w tokenAddr) (\<lambda>decimals.
                   bind_io (await (ReadContract faucetAddress ''getTokenBalance''
                                     [Str tokenAddr, Str faucetAddress])
                              (readContract w faucetAddress ''getTokenBalance''
                                 [Str tokenAddr, Str faucetAddress])) (\<lambda>tokenBalance.
                   emit (SetBalance (Some tokenBalance)))))
                (\<lambda>e.
                 seq (emit (ConsoleError ''Failed to fetch balance:'' e))
                     (emit (SetBalance None))))
             (emit (SetIsLoadingBalance False))))"

section \<open>Amount conversion\<close>

text \<open>
  The conversions \<^verbatim>\<open>parseUnits\<close> and \<^verbatim>\<open>parseGwei\<close> belong to the chain library.
  The definitions up to \<open>matches_decimal\<close> are the string operations they are written
  with.
\<close>

definition is_digit :: "char \<Rightarrow> bool" where
  "is_digit c = (let n = (of_char c :: nat) in 48 \<le> n \<and> n \<le> 57)"

text \<open>\<^verbatim>\<open>BigInt(s)\<close> on a string of decimal digits; the empty string gives 0.\<close>

definition bigint_of_digits :: "string \<Rightarrow> nat" where
  "bigint_of_digits s = foldl (\<lambda>n c. 10 * n + (of_char c - 48)) 0 s"

text \<open>The decimal digits of a natural number, as \<^verbatim>\<open>`${n}`\<close> prints a big integer.\<close>

function show_nat :: "nat \<Rightarrow> string" where
  "show_nat n =
     (if n < 10 then [char_of (48 + n)]
      else show_nat (n div 10) @ [char_of (48 + n mod 10)])"
  by pat_completeness auto
termination
  by (relation "measure (\<lambda>n. n)") auto

definition padStart :: "string \<Rightarrow> nat \<Rightarrow> char \<Rightarrow> string" where
  "padStart s n c = replicate (n - length s) c @ s"

definition padEnd :: "string \<Rightarrow> nat \<Rightarrow> char \<Rightarrow> string" where
  "padEnd s n c = s @ replicate (n - length s) c"

text \<open>The test of \<^verbatim>\<open>/^(-?)([0-9]*)\.?([0-9]*)$/\<close>.\<close>

definition matches_decimal :: "string \<Rightarrow> bool" where
  "matches_decimal v =
     (let u = (if v \<noteq> [] \<and> hd v = CHR ''-'' then tl v else v);
          r = dropWhile is_digit u
      in r = [] \<or> (hd r = CHR ''.'' \<and> list_all is_digit (tl r)))"

text \<open>
  Modelled from the spec: \<^verbatim>\<open>parseUnits\<close> is imported from the chain library
  and is not among the sources. By the spec the base units are the human-readable amount
  multiplied by \<open>10 ^ decimals\<close>, and a malformed number is a conversion failure. The
  definition follows the library's algorithm on the digit strings: split at the point,
  drop the trailing zeros of the fraction, pad the fraction to \<open>decimals\<close> digits, or,
  when it is longer, round it at that digit by \<^verbatim>\<open>Math.round(Number(..))\<close>, which is
  floating point and taken from the environment.
\<close>

definition parseUnits :: "env \<Rightarrow> string \<Rightarrow> nat \<Rightarrow> exn + int" where
  "parseUnits w v decimals =
     (if \<not> matches_decimal v then Inl (Error ''InvalidDecimalNumberError'')
      else
        let integer0 = takeWhile (\<lambda>c. c \<noteq> CHR ''.'') v;
            fraction0 = (if CHR ''.'' \<in> set v then tl (dropWhile (\<lambda>c. c \<noteq> CHR ''.'') v)
                         else ''0'');
            negative = (integer0 \<noteq> [] \<and> hd integer0 = CHR ''-'');
            integer1 = (if negative then tl integer0 else integer0);
            fraction1 = rev (dropWhile (\<lambda>c. c = CHR ''0'') (rev fraction0));
            (integer, fraction) =
              (if decimals = 0 then
                 (if fraction1 \<noteq> [] \<and> mathRound w (CHR ''.'' # fraction1) = 1
                  then show_nat (bigint_of_digits integer1 + 1) else integer1, [])
               else if length fraction1 > decimals then
                 let left = take (decimals - 1) fraction1;
                     unit = take 1 (drop (decimals - 1) fraction1);
                     right = drop decimals fraction1;
                     rounded = mathRound w (unit @ CHR ''.'' # right);
                     fraction2 =
                       (if rounded > 9
                        then padStart (show_nat (bigint_of_digits left + 1) @ ''0'')
                               (length left + 1) (CHR ''0'')
                        else left @ show_nat rounded);
                     carry = (length fraction2 > decimals)
                 in (if carry then show_nat (bigint_of_digits integer1 + 1) else integer1,
                     take decimals (if carry then tl fraction2 else fraction2))
               else (integer1, padEnd fraction1 decimals (CHR ''0'')))
        in if negative \<and> integer @ fraction = [] then Inl (Error ''SyntaxError'')
           else Inr ((if negative then - 1 else 1) * int (bigint_of_digits (integer @ fraction))))"

text \<open>
  Modelled from the spec: \<^verbatim>\<open>parseGwei\<close> is the same library's conversion of an amount
  of gwei, with 9 decimals; the mint flow pins its maximum gas fee with it.
\<close>

definition parseGwei :: "env \<Rightarrow> string \<Rightarrow> exn + int" where
  "parseGwei w v = parseUnits w v 9"

section \<open>The messages of the form\<close>

text \<open>
  The messages are Chinese text in the source; they are given here by their UTF-8 bytes.
  In order: "please enter a valid token address", "please enter a valid receiver address",
  "please enter a valid amount", "please connect the wallet first", "Mint" and "Claim"
  followed by "succeeded!".
\<close>

definition msg_invalid_token :: string where
  "msg_invalid_token = [
      CHR 0xE8, CHR 0xAF, CHR 0xB7, CHR 0xE8, CHR 0xBE, CHR 0x93,
      CHR 0xE5, CHR 0x85, CHR 0xA5, CHR 0xE6, CHR 0x9C, CHR 0x89,
      CHR 0xE6, CHR 0x95, CHR 0x88, CHR 0xE7, CHR 0x9A, CHR 0x84,
      CHR 0xE4, CHR 0xBB, CHR 0xA3, CHR 0xE5, CHR 0xB8, CHR 0x81,
      CHR 0xE5, CHR 0x9C, CHR 0xB0, CHR 0xE5, CHR 0x9D, CHR 0x80]"

definition msg_invalid_receiver :: string where
  "msg_invalid_receiver = [
      CHR 0xE8, CHR 0xAF, CHR 0xB7, CHR 0xE8, CHR 0xBE, CHR 0x93,
      CHR 0xE5, CHR 0x85, CHR 0xA5, CHR 0xE6, CHR 0x9C, CHR 0x89,
      CHR 0xE6, CHR 0x95, CHR 0x88, CHR 0xE7, CHR 0x9A, CHR 0x84,
      CHR 0xE6, CHR 0x8E, CHR 0xA5, CHR 0xE6, CHR 0x94, CHR 0xB6,
      CHR 0xE5, CHR 0x9C, CHR 0xB0, CHR 0xE5, CHR 0x9D, CHR 0x80]"

definition msg_invalid_amount :: string where
  "msg_invalid_amount = [
      CHR 0xE8, CHR 0xAF, CHR 0xB7, CHR 0xE8, CHR 0xBE, CHR 0x93,
      CHR 0xE5, CHR 0x85, CHR 0xA5, CHR 0xE6, CHR 0x9C, CHR 0x89,
      CHR 0xE6, CHR 0x95, CHR 0x88, CHR 0xE7, CHR 0x9A, CHR 0x84,
      CHR 0xE6, CHR 0x95, CHR 0xB0, CHR 0xE9, CHR 0x87, CHR 0x8F]"

definition msg_connect_wallet :: string where
  "msg_connect_wallet = [
      CHR 0xE8, CHR 0xAF, CHR 0xB7, CHR 0xE5, CHR 0x85, CHR 0x88,
      CHR 0xE8, CHR 0xBF, CHR 0x9E, CHR 0xE6, CHR 0x8E, CHR 0xA5,
      CHR 0xE9, CHR 0x92, CHR 0xB1, CHR 0xE5, CHR 0x8C, CHR 0x85]"

definition msg_mint_success :: string where
  "msg_mint_success = [
      CHR 0x4D, CHR 0x69, CHR 0x6E, CHR 0x74, CHR 0xE6, CHR 0x88,
      CHR 0x90, CHR 0xE5, CHR 0x8A, CHR 0x9F, CHR 0xEF, CHR 0xBC,
      CHR 0x81]"

definition msg_claim_success :: string where
  "msg_claim_success = [
      CHR 0x43, CHR 0x6C, CHR 0x61, CHR 0x69, CHR 0x6D, CHR 0xE6,
      CHR 0x88, CHR 0x90, CHR 0xE5, CHR 0x8A, CHR 0x9F, CHR 0xEF,
      CHR 0xBC, CHR 0x81]"

section \<open>The mint and claim flows\<close>

text \<open>\<^verbatim>\<open>isZeroAddress\<close>, computed at each render from the token address field.\<close>

definition isZeroAddress :: "env \<Rightarrow> state \<Rightarrow> bool" where
  "isZeroAddress w s =
     (tokenAddress s \<noteq> [] \<and> isAddress w (tokenAddress s) \<and>
      toLowerCase (tokenAddress s) = toLowerCase zeroAddress)"

definition validateInputs :: "env \<Rightarrow> state \<Rightarrow> bool io" where
  "validateInputs w s =
     (if tokenAddress s = [] \<or> \<not> isAddress w (tokenAddress s) then
        seq (emit (SetError msg_invalid_token)) (ret False)
      else if receiverAddress s = [] \<or> \<not> isAddress w (receiverAddress s) then
        seq (emit (SetError msg_invalid_receiver)) (ret False)
      else if amount s = [] \<or> isNaN w (amount s) \<or> le_zero (parseFloat w (amount s)) then
        seq (emit (SetError msg_invalid_amount)) (ret False)
      else
        bind_io (lift (createWalletClient w)) (\<lambda>walletClient.
        if \<not> walletClient then
          seq (emit (SetError msg_connect_wallet)) (ret False)
        else
          seq (emit (SetError [])) (ret True)))"

text \<open>The object passed to \<^verbatim>\<open>walletClient.writeContract\<close> by each flow.\<close>

definition mint_request :: "env \<Rightarrow> state \<Rightarrow> int \<Rightarrow> int \<Rightarrow> write_request" where
  "mint_request w s amountIn fee =
     \<lparr>address = faucetAddress, functionName = ''mint'',
      args = [Str (tokenAddress s), Str (receiverAddress s), BigInt amountIn],
      maxFeePerGas = Some fee, account = connectedAddress w\<rparr>"

definition claim_request :: "env \<Rightarrow> state \<Rightarrow> int \<Rightarrow> write_request" where
  "claim_request w s amountInWei =
     \<lparr>address = faucetAddress, functionName = ''claim'',
      args = [Str (tokenAddress s), Str (receiverAddress s), BigInt amountInWei],
      maxFeePerGas = None, account = connectedAddress w\<rparr>"

text \<open>
  The statements of \<^verbatim>\<open>handleMint\<close> after \<^verbatim>\<open>setIsMinting(true)\<close>: the body of its
  \<^verbatim>\<open>try\<close> block. A call of a method on a client that is not an object throws.
\<close>

definition mint_body :: "env \<Rightarrow> state \<Rightarrow> unit io" where
  "mint_body w s =
     (let decimals = (if isZeroAddress w s then 18 else tokenDecimals s) in
      bind_io (lift (parseUnits w (amount s) decimals)) (\<lambda>amountIn.
      bind_io (lift (createWalletClient w)) (\<lambda>walletClient.
      bind_io (lift (parseGwei w ''50'')) (\<lambda>fee.
      bind_io (if walletClient
               then await (WriteContract (mint_request w s amountIn fee))
                      (writeContract w (mint_request w s amountIn fee))
               else throw (Error ''TypeError'')) (\<lambda>hash.
      seq (emit (SetTxHash hash))
     (seq (emit (SetTxType ''mint''))
     (seq (emit (SetSuccess msg_mint_success))
     (seq (emit (ConsoleLog ''mint:'' hash))
     (if hash \<noteq> [] \<and> publicClient w then
        bind_io (await (WaitForTransactionReceipt hash) (waitForTransactionReceipt w hash))
          (\<lambda>_. fetchBalance w (tokenAddress s))
      else ret ())))))))))"

definition handleMint :: "env \<Rightarrow> state \<Rightarrow> unit io" where
  "handleMint w s =
     seq (emit (SetSuccess []))
    (seq (emit (SetError []))
    (seq (emit (SetTxHash []))
    (seq (emit (SetTxType []))
    (bind_io (validateInputs w s) (\<lambda>ok.
     if \<not> ok then ret ()
     else
       seq (emit (SetIsMinting True))
         (try_finally
            (try_catch (mint_body w s)
               (\<lambda>e. seq (emit (SetError ''Transaction fail''))
                         (emit (ConsoleError ''Mint fail:'' e))))
            (emit (SetIsMinting False))))))))"

definition claim_body :: "env \<Rightarrow> state \<Rightarrow> unit io" where
  "claim_body w s =
     (let decimals = (if isZeroAddress w s then 18 else tokenDecimals s) in
      bind_io (lift (parseUnits w (amount s) decimals)) (\<lambda>amountInWei.
      bind_io (lift (createWalletClient w)) (\<lambda>walletClient.
      bind_io (if walletClient
               then await (WriteContract (claim_request w s amountInWei))
                      (writeContract w (claim_request w s amountInWei))
               else throw (Error ''TypeError'')) (\<lambda>hash.
      seq (emit (SetTxHash hash))
     (seq (emit (SetTxType ''claim''))
     (seq (emit (SetSuccess msg_claim_success))
     (seq (emit (ConsoleLog ''claim:'' hash))
     (if hash \<noteq> [] \<and> publicClient w then
        bind_io (await (WaitForTransactionReceipt hash) (waitForTransactionReceipt w hash))
          (\<lambda>_. fetchBalance w (tokenAddress s))
      else ret ()))))))))"

definition handleClaim :: "env \<Rightarrow> state \<Rightarrow> unit io" where
  "handleClaim w s =
     seq (emit (SetSuccess []))
    (seq (emit (SetError []))
    (seq (emit (SetTxHash []))
    (seq (emit (SetTxType []))
    (bind_io (validateInputs w s) (\<lambda>ok.
     if \<not> ok then ret ()
     else
       seq (emit (SetIsClaiming True))
         (try_finally
            (try_catch (claim_body w s)
               (\<lambda>e. seq (emit (SetError ''Transaction fail''))
                         (emit (ConsoleError ''Claim fail:'' e))))
            (emit (SetIsClaiming False))))))))"

section \<open>The debounced balance fetch\<close>













section \<open>A sample environment\<close>

text \<open>
  An environment for concrete runs: addresses are checked by the pattern
  \<^verbatim>\<open>/^0x[a-fA-F0-9]{40}$/\<close>, numbers are read from plain decimal numerals only,
  every token has 6 decimals, and the faucet holds 250 units of every token and 3 units
  of the native asset.
\<close>

definition is_hex :: "char \<Rightarrow> bool" where
  "is_hex c =
     (let n = (of_char c :: nat)
      in (48 \<le> n \<and> n \<le> 57) \<or> (65 \<le> n \<and> n \<le> 70) \<or> (97 \<le> n \<and> n \<le> 102))"

definition addressRegex :: "string \<Rightarrow> bool" where
  "addressRegex a = (length a = 42 \<and> take 2 a = ''0x'' \<and> list_all is_hex (drop 2 a))"

definition is_numeral :: "string \<Rightarrow> bool" where
  "is_numeral a = (matches_decimal a \<and> list_ex is_digit a)"

definition numeral_value :: "string \<Rightarrow> number" where
  "numeral_value a =
     (if \<not> is_numeral a then NaN
      else
        let sign = (if hd a = CHR ''-'' then - 1 else 1);
            fraction = (if CHR ''.'' \<in> set a then tl (dropWhile (\<lambda>c. c \<noteq> CHR ''.'') a)
                        else [])
        in Finite (sign * of_nat (bigint_of_digits (filter is_digit a)) /
                   10 ^ length fraction))"

definition sample_env :: env where
  "sample_env =
     \<lparr>isAddress = addressRegex,
      isNaN = (\<lambda>a. \<not> is_numeral a),
      parseFloat = numeral_value,
      mathRound = (\<lambda>a. 0),
      publicClient = True,
      connectedAddress = Some ''0x1111111111111111111111111111111111111111'',
      readContract = (\<lambda>a f xs. if f = ''decimals'' then Inr 6 else Inr 250000000),
      getBalance = (\<lambda>a. Inr 3000000000000000000),
      createWalletClient = Inr True,
      writeContract = (\<lambda>r. Inr ''0xabcdef''),
      waitForTransactionReceipt = (\<lambda>h. Inr ())\<rparr>"

definition sample_token :: string where
  "sample_token = ''0x75faf114eafb1bdbe2f0316df893fd58ce46aa4d''"

text \<open>
  A state left by an earlier claim: 2.5 units of the sample token are asked for.
\<close>

definition sample_state :: state where
  "sample_state =
     \<lparr>tokenAddress = sample_token,
      receiverAddress = ''0x1111111111111111111111111111111111111111'',
      amount = ''2.5'',
      isMinting = False, isClaiming = False,
      error = [], success = msg_claim_success, txHash = ''0x1234'', txType = ''claim'',
      balance = Some 7, isLoadingBalance = False, tokenDecimals = 6\<rparr>"

text \<open>The same state with 1.5 units of the native asset asked for.\<close>

definition native_state :: state where
  "native_state = sample_state\<lparr>tokenAddress := zeroAddress, amount := ''1.5''\<rparr>"

text \<open>The same environment with the chain unreachable for reads.\<close>

definition offline_env :: env where
  "offline_env =
     sample_env\<lparr>readContract := (\<lambda>a f xs. Inl (Error ''timeout'')),
                getBalance := (\<lambda>a. Inl (Error ''timeout''))\<rparr>"

text \<open>The same environment with the wallet rejecting every transaction.\<close>

definition rejecting_env :: env where
  "rejecting_env =
     sample_env\<lparr>writeContract := (\<lambda>r. Inl (Error ''User rejected the request''))\<rparr>"

text \<open>The same environment with the wait for the receipt failing.\<close>

definition unconfirmed_env :: env where
  "unconfirmed_env =
     sample_env\<lparr>waitForTransactionReceipt := (\<lambda>h. Inl (Error ''timeout''))\<rparr>"





text \<open>The sample state with the amount 0.\<close>

definition zero_amount_state :: state where
  "zero_amount_state = sample_state\<lparr>amount := ''0''\<rparr>"

section \<open>Facts about the sample environment\<close>

lemmas io_defs = ret_def throw_def lift_def emit_def await_def bind_io_def seq_def
  try_catch_def try_finally_def

lemma sample_env_simps:
  "isAddress sample_env = addressRegex"
  "publicClient sample_env"
  "readContract sample_env a f xs = (if f = ''decimals'' then Inr 6 else Inr 250000000)"
  "getBalance sample_env a = Inr 3000000000000000000"
  "createWalletClient sample_env = Inr True"
  "writeContract sample_env r = Inr ''0xabcdef''"
  "waitForTransactionReceipt sample_env h = Inr ()"
  "connectedAddress sample_env = Some ''0x1111111111111111111111111111111111111111''"
  by (simp_all add: sample_env_def)

lemma sample_token_ok: "addressRegex sample_token"
  by (simp add: addressRegex_def sample_token_def is_hex_def)

lemma sample_token_nonempty: "sample_token \<noteq> []"
  by (simp add: sample_token_def)

lemma sample_token_not_zero: "toLowerCase sample_token \<noteq> toLowerCase zeroAddress"
  by (simp add: toLowerCase_def toLowerCase_char_def sample_token_def zeroAddress_def)

lemma short_not_address: "\<not> addressRegex ''0x12''"
  by (simp add: addressRegex_def)

lemma zeroAddress_ok: "addressRegex zeroAddress" "zeroAddress \<noteq> []"
  by (simp_all add: addressRegex_def zeroAddress_def is_hex_def)

lemma offline_env_simps:
  "isAddress offline_env = addressRegex"
  "publicClient offline_env"
  "readContract offline_env a f xs = Inl (Error ''timeout'')"
  "getBalance offline_env a = Inl (Error ''timeout'')"
  by (simp_all add: offline_env_def sample_env_def)

lemma network_calls_simps: "network_calls (r, es) = filter is_network es"
  by (simp add: network_calls_def)

lemma after_simps: "after s (r, es) = foldl apply_effect s es"
  by (simp add: after_def)

section \<open>The decimals resolver\<close>

lemma fetchTokenDecimals_cases:
  "fetchTokenDecimals w a =
     (if \<not> publicClient w \<or> a = [] \<or> \<not> isAddress w a \<or>
         toLowerCase a = toLowerCase zeroAddress
      then (Inr 18, [SetTokenDecimals 18])
      else case readContract w a ''decimals'' [] of
             Inr d \<Rightarrow> (Inr d, [ReadContract a ''decimals'' [], SetTokenDecimals d])
           | Inl e \<Rightarrow>
               (Inr 18, [ReadContract a ''decimals'' [],
                         ConsoleWarn ''Failed to fetch token decimals, using default 18:'' e,
                         SetTokenDecimals 18]))"
  by (simp add: fetchTokenDecimals_def io_defs split: sum.splits)

text \<open>
  C2. For every input string the decimals resolver returns 18 without a network request
  when the string is empty, is not a valid address, or is the zero address. Otherwise
  (the public client being there) it makes exactly one request, for the token's
  \<^verbatim>\<open>decimals\<close>; when the request succeeds it returns that integer, and when the request
  fails it logs a warning and returns 18. In every case the result is a value: the
  resolver never throws.
\<close>

theorem fetchTokenDecimals_total:
  "(a = [] \<or> \<not> isAddress w a \<or> toLowerCase a = toLowerCase zeroAddress \<longrightarrow>
      fst (fetchTokenDecimals w a) = Inr 18 \<and> network_calls (fetchTokenDecimals w a) = []) \<and>
   (publicClient w \<and> a \<noteq> [] \<and> isAddress w a \<and>
    toLowerCase a \<noteq> toLowerCase zeroAddress \<longrightarrow>
      network_calls (fetchTokenDecimals w a) = [ReadContract a ''decimals'' []] \<and>
      (\<forall>d. readContract w a ''decimals'' [] = Inr d \<longrightarrow>
           fetchTokenDecimals w a =
             (Inr d, [ReadContract a ''decimals'' [], SetTokenDecimals d])) \<and>
      (\<forall>e. readContract w a ''decimals'' [] = Inl e \<longrightarrow>
           fetchTokenDecimals w a =
             (Inr 18, [ReadContract a ''decimals'' [],
                       ConsoleWarn ''Failed to fetch token decimals, using default 18:'' e,
                       SetTokenDecimals 18]))) \<and>
   (\<exists>d. fst (fetchTokenDecimals w a) = Inr d)"
  by (auto simp add: fetchTokenDecimals_cases network_calls_def split: sum.splits)

theorem fetchTokenDecimals_total_witness:
  "fst (fetchTokenDecimals sample_env ''0x12'') = Inr 18 \<and>
   network_calls (fetchTokenDecimals sample_env ''0x12'') = [] \<and>
   fetchTokenDecimals sample_env sample_token =
     (Inr 6, [ReadContract sample_token ''decimals'' [], SetTokenDecimals 6]) \<and>
   fst (fetchTokenDecimals offline_env sample_token) = Inr 18"
  using fetchTokenDecimals_total [of "''0x12''" sample_env]
    fetchTokenDecimals_total [of sample_token sample_env]
    fetchTokenDecimals_total [of sample_token offline_env]
  by (simp add: sample_env_simps offline_env_simps sample_token_ok sample_token_not_zero
      short_not_address sample_token_nonempty)

section \<open>The balance fetcher\<close>

lemma fetchTokenDecimals_ok: "\<exists>d. fst (fetchTokenDecimals w a) = Inr d"
  by (simp add: fetchTokenDecimals_cases split: sum.splits)

lemma fetchBalance_cases:
  "fetchBalance w a =
     (if \<not> publicClient w then (Inr (), [])
      else if a = [] \<or> \<not> isAddress w a then
        (Inr (), [SetBalance None, SetIsLoadingBalance False])
      else if toLowerCase a = toLowerCase zeroAddress then
        (case getBalance w faucetAddress of
           Inr b \<Rightarrow>
             (Inr (), [SetIsLoadingBalance True, GetBalance faucetAddress,
                       SetBalance (Some b), SetTokenDecimals 18, SetIsLoadingBalance False])
         | Inl e \<Rightarrow>
             (Inr (), [SetIsLoadingBalance True, GetBalance faucetAddress,
                       ConsoleError ''Failed to fetch balance:'' e, SetBalance None,
                       SetIsLoadingBalance False]))
      else
        (case readContract w faucetAddress ''getTokenBalance'' [Str a, Str faucetAddress] of
           Inr b \<Rightarrow>
             (Inr (), SetIsLoadingBalance True # snd (fetchTokenDecimals w a) @
                      [ReadContract faucetAddress ''getTokenBalance''
                         [Str a, Str faucetAddress],
                       SetBalance (Some b), SetIsLoadingBalance False])
         | Inl e \<Rightarrow>
             (Inr (), SetIsLoadingBalance True # snd (fetchTokenDecimals w a) @
                      [ReadContract faucetAddress ''getTokenBalance''
                         [Str a, Str faucetAddress],
                       ConsoleError ''Failed to fetch balance:'' e, SetBalance None,
                       SetIsLoadingBalance False])))"
  using fetchTokenDecimals_ok [of w a]
  by (auto simp add: fetchBalance_def io_defs split: sum.splits prod.splits)




text \<open>
  C9. With the public client in place, on each of its three paths (the early return for an
  empty or invalid address, the fetch that succeeds, the fetch that fails) the balance
  fetcher returns normally, calls \<^verbatim>\<open>setIsLoadingBalance(false)\<close> exactly once, as its
  last effect, and leaves the loading flag cleared.
\<close>

theorem fetchBalance_clears_loading_once:
  "publicClient w \<longrightarrow>
     fst (fetchBalance w a) = Inr () \<and>
     length (filter (\<lambda>e. e = SetIsLoadingBalance False) (snd (fetchBalance w a))) = 1 \<and>
     last (snd (fetchBalance w a)) = SetIsLoadingBalance False \<and>
     isLoadingBalance (after s (fetchBalance w a)) = False"
  by (auto simp add: fetchBalance_cases fetchTokenDecimals_cases after_simps after_def
      split: sum.splits)

theorem fetchBalance_clears_loading_once_witness:
  "length (filter (\<lambda>e. e = SetIsLoadingBalance False)
             (snd (fetchBalance sample_env ''0x12''))) = 1 \<and>
   length (filter (\<lambda>e. e = SetIsLoadingBalance False)
             (snd (fetchBalance sample_env sample_token))) = 1 \<and>
   length (filter (\<lambda>e. e = SetIsLoadingBalance False)
             (snd (fetchBalance offline_env sample_token))) = 1 \<and>
   isLoadingBalance (after sample_state (fetchBalance offline_env sample_token)) = False"
  using fetchBalance_clears_loading_once [of sample_env "''0x12''" sample_state]
    fetchBalance_clears_loading_once [of sample_env sample_token sample_state]
    fetchBalance_clears_loading_once [of offline_env sample_token sample_state]
  by (simp add: sample_env_simps offline_env_simps)

text \<open>
  C7, as stated, fails: the balance stored for an invalid address and the balance stored
  after a failed fetch are the same value, \<^verbatim>\<open>null\<close>.
\<close>

theorem fetchBalance_null_counterexample:
  "balance (after sample_state (fetchBalance sample_env ''0x12'')) = None \<and>
   balance (after sample_state (fetchBalance offline_env sample_token)) = None \<and>
   balance (after sample_state (fetchBalance offline_env zeroAddress)) = None"
  by (simp add: fetchBalance_cases fetchTokenDecimals_cases after_simps sample_env_simps
      offline_env_simps sample_token_ok sample_token_not_zero sample_token_nonempty
      zeroAddress_ok short_not_address)

text \<open>
  C7, amended. With the public client in place, for an empty or invalid address the
  balance fetcher makes no request: it sets the balance to \<^verbatim>\<open>null\<close> and clears the
  loading flag, and does nothing else. When the balance request of a valid address fails,
  it logs the error and sets the balance to \<^verbatim>\<open>null\<close> as well. The balance state does
  not tell the two cases apart.
\<close>

theorem fetchBalance_null_in_both_cases:
  "publicClient w \<longrightarrow>
     (a = [] \<or> \<not> isAddress w a \<longrightarrow>
        fetchBalance w a = (Inr (), [SetBalance None, SetIsLoadingBalance False]) \<and>
        balance (after s (fetchBalance w a)) = None) \<and>
     (a \<noteq> [] \<and> isAddress w a \<and> toLowerCase a = toLowerCase zeroAddress \<longrightarrow>
        (\<forall>e. getBalance w faucetAddress = Inl e \<longrightarrow>
           balance (after s (fetchBalance w a)) = None \<and>
           ConsoleError ''Failed to fetch balance:'' e \<in> set (snd (fetchBalance w a)))) \<and>
     (a \<noteq> [] \<and> isAddress w a \<and> toLowerCase a \<noteq> toLowerCase zeroAddress \<longrightarrow>
        (\<forall>e. readContract w faucetAddress ''getTokenBalance'' [Str a, Str faucetAddress] = Inl e
           \<longrightarrow>
           balance (after s (fetchBalance w a)) = None \<and>
           ConsoleError ''Failed to fetch balance:'' e \<in> set (snd (fetchBalance w a))))"
  by (auto simp add: fetchBalance_cases fetchTokenDecimals_cases after_simps
      split: sum.splits)

theorem fetchBalance_null_in_both_cases_witness:
  "fetchBalance sample_env ''0x12'' = (Inr (), [SetBalance None, SetIsLoadingBalance False]) \<and>
   balance (after sample_state (fetchBalance sample_env ''0x12'')) = None \<and>
   balance (after sample_state (fetchBalance offline_env zeroAddress)) = None \<and>
   balance (after sample_state (fetchBalance offline_env sample_token)) = None \<and>
   ConsoleError ''Failed to fetch balance:'' (Error ''timeout'')
     \<in> set (snd (fetchBalance offline_env sample_token))"
  using fetchBalance_null_in_both_cases [of sample_env "''0x12''" sample_state]
    fetchBalance_null_in_both_cases [of offline_env zeroAddress sample_state]
    fetchBalance_null_in_both_cases [of offline_env sample_token sample_state]
  by (simp add: sample_env_simps offline_env_simps sample_token_ok sample_token_not_zero
      sample_token_nonempty zeroAddress_ok short_not_address after_simps)

section \<open>The mint and claim flows: properties\<close>

lemma foldl_zeros:
  "foldl (\<lambda>n c. 10 * n + (of_char c - 48)) a (replicate k (CHR ''0'')) = (a::nat) * 10 ^ k"
  by (induction k arbitrary: a) simp_all

lemmas parseUnits_eval = parseUnits_def matches_decimal_def is_digit_def bigint_of_digits_def
  padEnd_def Let_def foldl_zeros

lemma parseGwei_50: "parseGwei w ''50'' = Inr 50000000000"
  by (simp add: parseGwei_def parseUnits_eval)

lemma messages_nonempty:
  "msg_invalid_token \<noteq> []" "msg_invalid_receiver \<noteq> []" "msg_invalid_amount \<noteq> []"
  "msg_connect_wallet \<noteq> []" "msg_mint_success \<noteq> []" "msg_claim_success \<noteq> []"
  by (simp_all add: msg_invalid_token_def msg_invalid_receiver_def msg_invalid_amount_def
      msg_connect_wallet_def msg_mint_success_def msg_claim_success_def)

lemma validateInputs_cases:
  "validateInputs w s =
     (if tokenAddress s = [] \<or> \<not> isAddress w (tokenAddress s) then
        (Inr False, [SetError msg_invalid_token])
      else if receiverAddress s = [] \<or> \<not> isAddress w (receiverAddress s) then
        (Inr False, [SetError msg_invalid_receiver])
      else if amount s = [] \<or> isNaN w (amount s) \<or> le_zero (parseFloat w (amount s)) then
        (Inr False, [SetError msg_invalid_amount])
      else case createWalletClient w of
             Inl e \<Rightarrow> (Inl e, [])
           | Inr walletClient \<Rightarrow>
               if walletClient then (Inr True, [SetError []])
               else (Inr False, [SetError msg_connect_wallet]))"
  by (simp add: validateInputs_def io_defs split: sum.splits)

lemma validateInputs_True:
  assumes "fst (validateInputs w s) = Inr True"
  shows "validateInputs w s = (Inr True, [SetError []])"
    and "createWalletClient w = Inr True"
    and "tokenAddress s \<noteq> []" and "isAddress w (tokenAddress s)"
  using assms by (auto simp add: validateInputs_cases split: if_splits sum.splits)

lemma validateInputs_False:
  assumes "fst (validateInputs w s) = Inr False"
  shows "\<exists>m. m \<noteq> [] \<and> validateInputs w s = (Inr False, [SetError m])"
  using assms by (auto simp add: validateInputs_cases messages_nonempty split: if_splits sum.splits)

lemma fetchBalance_ok: "fst (fetchBalance w a) = Inr ()"
  by (simp add: fetchBalance_cases split: sum.splits)

lemma handleMint_valid:
  assumes "fst (validateInputs w s) = Inr True"
  shows "handleMint w s =
    (Inr (),
     [SetSuccess [], SetError [], SetTxHash [], SetTxType [], SetError [], SetIsMinting True] @
     (case parseUnits w (amount s) (if isZeroAddress w s then 18 else tokenDecimals s) of
        Inl e \<Rightarrow> [SetError ''Transaction fail'', ConsoleError ''Mint fail:'' e]
      | Inr n \<Rightarrow>
          WriteContract (mint_request w s n 50000000000) #
          (case writeContract w (mint_request w s n 50000000000) of
             Inl e \<Rightarrow> [SetError ''Transaction fail'', ConsoleError ''Mint fail:'' e]
           | Inr h \<Rightarrow>
               [SetTxHash h, SetTxType ''mint'', SetSuccess msg_mint_success,
                ConsoleLog ''mint:'' h] @
               (if h \<noteq> [] \<and> publicClient w then
                  WaitForTransactionReceipt h #
                  (case waitForTransactionReceipt w h of
                     Inl e \<Rightarrow> [SetError ''Transaction fail'', ConsoleError ''Mint fail:'' e]
                   | Inr u \<Rightarrow> snd (fetchBalance w (tokenAddress s)))
                else []))) @
     [SetIsMinting False])"
  using validateInputs_True(1,2) [OF assms] fetchBalance_ok [of w "tokenAddress s"]
  by (auto simp add: handleMint_def mint_body_def io_defs parseGwei_50
      split: sum.splits prod.splits)

lemma handleClaim_valid:
  assumes "fst (validateInputs w s) = Inr True"
  shows "handleClaim w s =
    (Inr (),
     [SetSuccess [], SetError [], SetTxHash [], SetTxType [], SetError [], SetIsClaiming True] @
     (case parseUnits w (amount s) (if isZeroAddress w s then 18 else tokenDecimals s) of
        Inl e \<Rightarrow> [SetError ''Transaction fail'', ConsoleError ''Claim fail:'' e]
      | Inr n \<Rightarrow>
          WriteContract (claim_request w s n) #
          (case writeContract w (claim_request w s n) of
             Inl e \<Rightarrow> [SetError ''Transaction fail'', ConsoleError ''Claim fail:'' e]
           | Inr h \<Rightarrow>
               [SetTxHash h, SetTxType ''claim'', SetSuccess msg_claim_success,
                ConsoleLog ''claim:'' h] @
               (if h \<noteq> [] \<and> publicClient w then
                  WaitForTransactionReceipt h #
                  (case waitForTransactionReceipt w h of
                     Inl e \<Rightarrow> [SetError ''Transaction fail'', ConsoleError ''Claim fail:'' e]
                   | Inr u \<Rightarrow> snd (fetchBalance w (tokenAddress s)))
                else []))) @
     [SetIsClaiming False])"
  using validateInputs_True(1,2) [OF assms] fetchBalance_ok [of w "tokenAddress s"]
  by (auto simp add: handleClaim_def claim_body_def io_defs
      split: sum.splits prod.splits)

lemma handle_invalid:
  assumes "fst (validateInputs w s) = Inr False"
  shows "handleMint w s =
           (Inr (), [SetSuccess [], SetError [], SetTxHash [], SetTxType []] @
                    snd (validateInputs w s))"
    and "handleClaim w s =
           (Inr (), [SetSuccess [], SetError [], SetTxHash [], SetTxType []] @
                    snd (validateInputs w s))"
  using validateInputs_False [OF assms]
  by (auto simp add: handleMint_def handleClaim_def io_defs)


lemma sample_receiver_ok: "addressRegex ''0x1111111111111111111111111111111111111111''"
  by (simp add: addressRegex_def is_hex_def)

lemma sample_numbers:
  "is_numeral ''2.5''" "is_numeral ''1.5''" "is_numeral ''0''"
  "\<not> le_zero (numeral_value ''2.5'')" "\<not> le_zero (numeral_value ''1.5'')"
  "le_zero (numeral_value ''0'')"
  by (simp_all add: numeral_value_def is_numeral_def matches_decimal_def is_digit_def
      bigint_of_digits_def)

lemma sample_state_simps:
  "tokenAddress sample_state = sample_token"
  "receiverAddress sample_state = ''0x1111111111111111111111111111111111111111''"
  "amount sample_state = ''2.5''" "tokenDecimals sample_state = 6"
  "tokenAddress native_state = zeroAddress"
  "receiverAddress native_state = ''0x1111111111111111111111111111111111111111''"
  "amount native_state = ''1.5''" "tokenDecimals native_state = 6"
  by (simp_all add: sample_state_def native_state_def)

lemma sample_valid:
  "fst (validateInputs sample_env sample_state) = Inr True"
  "fst (validateInputs sample_env native_state) = Inr True"
  by (simp_all add: validateInputs_cases sample_env_def sample_state_simps sample_token_ok
      sample_token_nonempty sample_receiver_ok sample_numbers zeroAddress_ok)

lemma other_envs_valid:
  "validateInputs rejecting_env s = validateInputs sample_env s"
  "validateInputs unconfirmed_env s = validateInputs sample_env s"
  by (simp_all add: validateInputs_def rejecting_env_def unconfirmed_env_def)

lemma other_envs_simps:
  "isAddress rejecting_env = addressRegex" "publicClient rejecting_env"
  "writeContract rejecting_env r = Inl (Error ''User rejected the request'')"
  "isAddress unconfirmed_env = addressRegex" "publicClient unconfirmed_env"
  "writeContract unconfirmed_env r = Inr ''0xabcdef''"
  "waitForTransactionReceipt unconfirmed_env h = Inl (Error ''timeout'')"
  by (simp_all add: rejecting_env_def unconfirmed_env_def sample_env_def)

lemma parseUnits_scenarios:
  "parseUnits w ''1.5'' 18 = Inr 1500000000000000000"
  "parseUnits w ''2.5'' 6 = Inr 2500000"
  by (simp_all add: parseUnits_eval)

lemma isZeroAddress_valid:
  assumes "fst (validateInputs w s) = Inr True"
  shows "isZeroAddress w s = (toLowerCase (tokenAddress s) = toLowerCase zeroAddress)"
  using validateInputs_True(3,4) [OF assms] by (simp add: isZeroAddress_def)

lemma sample_conversion:
  "parseUnits w (amount sample_state)
     (if isZeroAddress sample_env sample_state then 18 else tokenDecimals sample_state) =
   Inr 2500000"
  "parseUnits w (amount native_state)
     (if isZeroAddress sample_env native_state then 18 else tokenDecimals native_state) =
   Inr 1500000000000000000"
  by (simp_all add: isZeroAddress_def sample_state_simps sample_env_simps sample_token_not_zero
      zeroAddress_ok parseUnits_scenarios)

lemma other_envs_zero:
  "isZeroAddress rejecting_env s = isZeroAddress sample_env s"
  "isZeroAddress unconfirmed_env s = isZeroAddress sample_env s"
  by (simp_all add: isZeroAddress_def rejecting_env_def unconfirmed_env_def)






text \<open>
  C10. Every run of \<^verbatim>\<open>handleMint\<close> and of \<^verbatim>\<open>handleClaim\<close> begins with the calls
  \<^verbatim>\<open>setSuccess("")\<close>, \<^verbatim>\<open>setError("")\<close>, \<^verbatim>\<open>setTxHash("")\<close>, \<^verbatim>\<open>setTxType("")\<close>,
  followed by the effects of the validation. After a validation failure the success
  message, the transaction hash and the transaction type are empty, the error is the
  validation's message, and the balance, the decimals and the loading flag are as before.
\<close>

theorem handlers_clear_first:
  "(\<exists>rest. snd (handleMint w s) =
      [SetSuccess [], SetError [], SetTxHash [], SetTxType []] @
      snd (validateInputs w s) @ rest) \<and>
   (\<exists>rest. snd (handleClaim w s) =
      [SetSuccess [], SetError [], SetTxHash [], SetTxType []] @
      snd (validateInputs w s) @ rest) \<and>
   (fst (validateInputs w s) = Inr False \<longrightarrow>
      success (after s (handleMint w s)) = [] \<and>
      txHash (after s (handleMint w s)) = [] \<and>
      txType (after s (handleMint w s)) = [] \<and>
      error (after s (handleMint w s)) \<noteq> [] \<and>
      snd (validateInputs w s) = [SetError (error (after s (handleMint w s)))] \<and>
      balance (after s (handleMint w s)) = balance s \<and>
      tokenDecimals (after s (handleMint w s)) = tokenDecimals s \<and>
      isLoadingBalance (after s (handleMint w s)) = isLoadingBalance s \<and>
      after s (handleClaim w s) = after s (handleMint w s))"
proof -
  have prefix: "(\<exists>rest. snd (handleMint w s) =
      [SetSuccess [], SetError [], SetTxHash [], SetTxType []] @
      snd (validateInputs w s) @ rest) \<and>
   (\<exists>rest. snd (handleClaim w s) =
      [SetSuccess [], SetError [], SetTxHash [], SetTxType []] @
      snd (validateInputs w s) @ rest)"
    by (cases "validateInputs w s")
      (auto simp add: handleMint_def handleClaim_def io_defs split: sum.splits prod.splits)
  have wiped: "success (after s (handleMint w s)) = [] \<and>
      txHash (after s (handleMint w s)) = [] \<and>
      txType (after s (handleMint w s)) = [] \<and>
      error (after s (handleMint w s)) \<noteq> [] \<and>
      snd (validateInputs w s) = [SetError (error (after s (handleMint w s)))] \<and>
      balance (after s (handleMint w s)) = balance s \<and>
      tokenDecimals (after s (handleMint w s)) = tokenDecimals s \<and>
      isLoadingBalance (after s (handleMint w s)) = isLoadingBalance s \<and>
      after s (handleClaim w s) = after s (handleMint w s)"
    if f: "fst (validateInputs w s) = Inr False"
  proof -
    from validateInputs_False [OF f] obtain m
      where m: "m \<noteq> []" "validateInputs w s = (Inr False, [SetError m])" by blast
    show ?thesis
      using m handle_invalid [OF f] by (simp add: after_simps)
  qed
  show ?thesis using prefix wiped by blast
qed

lemma zero_amount_invalid: "fst (validateInputs sample_env zero_amount_state) = Inr False"
  by (simp add: validateInputs_cases zero_amount_state_def sample_env_simps sample_state_simps
      sample_token_ok sample_token_nonempty sample_receiver_ok sample_numbers sample_env_def)

theorem handlers_clear_first_witness:
  "fst (validateInputs sample_env zero_amount_state) = Inr False \<and>
   success (after zero_amount_state (handleMint sample_env zero_amount_state)) = [] \<and>
   txHash (after zero_amount_state (handleMint sample_env zero_amount_state)) = [] \<and>
   txType (after zero_amount_state (handleMint sample_env zero_amount_state)) = [] \<and>
   error (after zero_amount_state (handleMint sample_env zero_amount_state)) \<noteq> [] \<and>
   balance (after zero_amount_state (handleMint sample_env zero_amount_state)) =
     balance zero_amount_state"
  using handlers_clear_first [of sample_env zero_amount_state] zero_amount_invalid
  by simp


text \<open>
  C8. When the inputs are valid and the submission fails (the amount conversion throws,
  or the wallet's \<^verbatim>\<open>writeContract\<close> rejects, which is also what a rejection by the user
  is), each flow returns normally with the error \<^verbatim>\<open>Transaction fail\<close> shown and logged,
  and the transaction hash, the transaction type and the success message are empty.
\<close>

theorem submission_failure_sets_nothing:
  "fst (validateInputs w s) = Inr True \<longrightarrow>
     (\<forall>e. parseUnits w (amount s) (if isZeroAddress w s then 18 else tokenDecimals s) = Inl e \<or>
          (\<exists>n. parseUnits w (amount s) (if isZeroAddress w s then 18 else tokenDecimals s) =
                 Inr n \<and>
               writeContract w (mint_request w s n 50000000000) = Inl e) \<longrightarrow>
        fst (handleMint w s) = Inr () \<and>
        error (after s (handleMint w s)) = ''Transaction fail'' \<and>
        txHash (after s (handleMint w s)) = [] \<and>
        txType (after s (handleMint w s)) = [] \<and>
        success (after s (handleMint w s)) = [] \<and>
        isMinting (after s (handleMint w s)) = False \<and>
        ConsoleError ''Mint fail:'' e \<in> set (snd (handleMint w s))) \<and>
     (\<forall>e. parseUnits w (amount s) (if isZeroAddress w s then 18 else tokenDecimals s) = Inl e \<or>
          (\<exists>n. parseUnits w (amount s) (if isZeroAddress w s then 18 else tokenDecimals s) =
                 Inr n \<and>
               writeContract w (claim_request w s n) = Inl e) \<longrightarrow>
        fst (handleClaim w s) = Inr () \<and>
        error (after s (handleClaim w s)) = ''Transaction fail'' \<and>
        txHash (after s (handleClaim w s)) = [] \<and>
        txType (after s (handleClaim w s)) = [] \<and>
        success (after s (handleClaim w s)) = [] \<and>
        isClaiming (after s (handleClaim w s)) = False \<and>
        ConsoleError ''Claim fail:'' e \<in> set (snd (handleClaim w s)))"
proof (intro impI conjI allI)
  fix e
  assume v: "fst (validateInputs w s) = Inr True"
    and f: "parseUnits w (amount s) (if isZeroAddress w s then 18 else tokenDecimals s) = Inl e \<or>
          (\<exists>n. parseUnits w (amount s) (if isZeroAddress w s then 18 else tokenDecimals s) =
                 Inr n \<and>
               writeContract w (mint_request w s n 50000000000) = Inl e)"
  from f have run: "\<exists>es. handleMint w s =
      (Inr (), [SetSuccess [], SetError [], SetTxHash [], SetTxType [], SetError [],
                SetIsMinting True] @ es @
               [SetError ''Transaction fail'', ConsoleError ''Mint fail:'' e,
                SetIsMinting False]) \<and> foldl apply_effect t es = t" for t
    by (auto simp add: handleMint_valid [OF v])
  from run [of "s\<lparr>success := [], error := [], txHash := [], txType := [], error := [],
                  isMinting := True\<rparr>"]
  show "fst (handleMint w s) = Inr ()"
    and "error (after s (handleMint w s)) = ''Transaction fail''"
    and "txHash (after s (handleMint w s)) = []"
    and "txType (after s (handleMint w s)) = []"
    and "success (after s (handleMint w s)) = []"
    and "isMinting (after s (handleMint w s)) = False"
    and "ConsoleError ''Mint fail:'' e \<in> set (snd (handleMint w s))"
    by (auto simp add: after_simps)
next
  fix e
  assume v: "fst (validateInputs w s) = Inr True"
    and f: "parseUnits w (amount s) (if isZeroAddress w s then 18 else tokenDecimals s) = Inl e \<or>
          (\<exists>n. parseUnits w (amount s) (if isZeroAddress w s then 18 else tokenDecimals s) =
                 Inr n \<and>
               writeContract w (claim_request w s n) = Inl e)"
  from f have run: "\<exists>es. handleClaim w s =
      (Inr (), [SetSuccess [], SetError [], SetTxHash [], SetTxType [], SetError [],
                SetIsClaiming True] @ es @
               [SetError ''Transaction fail'', ConsoleError ''Claim fail:'' e,
                SetIsClaiming False]) \<and> foldl apply_effect t es = t" for t
    by (auto simp add: handleClaim_valid [OF v])
  from run [of "s\<lparr>success := [], error := [], txHash := [], txType := [], error := [],
                  isClaiming := True\<rparr>"]
  show "fst (handleClaim w s) = Inr ()"
    and "error (after s (handleClaim w s)) = ''Transaction fail''"
    and "txHash (after s (handleClaim w s)) = []"
    and "txType (after s (handleClaim w s)) = []"
    and "success (after s (handleClaim w s)) = []"
    and "isClaiming (after s (handleClaim w s)) = False"
    and "ConsoleError ''Claim fail:'' e \<in> set (snd (handleClaim w s))"
    by (auto simp add: after_simps)
qed

theorem submission_failure_sets_nothing_witness:
  "fst (validateInputs rejecting_env sample_state) = Inr True \<and>
   writeContract rejecting_env (mint_request rejecting_env sample_state 2500000 50000000000) =
     Inl (Error ''User rejected the request'') \<and>
   error (after sample_state (handleMint rejecting_env sample_state)) = ''Transaction fail'' \<and>
   txHash (after sample_state (handleMint rejecting_env sample_state)) = [] \<and>
   success (after sample_state (handleMint rejecting_env sample_state)) = [] \<and>
   txHash (after sample_state (handleClaim rejecting_env sample_state)) = [] \<and>
   success (after sample_state (handleClaim rejecting_env sample_state)) = []"
proof -
  have v: "fst (validateInputs rejecting_env sample_state) = Inr True"
    by (simp add: other_envs_valid sample_valid)
  have p: "parseUnits rejecting_env (amount sample_state)
     (if isZeroAddress rejecting_env sample_state then 18 else tokenDecimals sample_state) =
     Inr 2500000"
    by (simp add: other_envs_zero sample_conversion)
  have r: "writeContract rejecting_env r = Inl (Error ''User rejected the request'')" for r
    by (simp add: other_envs_simps)
  show ?thesis
    using submission_failure_sets_nothing [of rejecting_env sample_state] v p r
    by simp
qed


text \<open>
  C6, as stated, fails: when the wait for the receipt fails, the flow returns normally
  (its promise is fulfilled, not rejected), and the failure reaches the flow's own
  \<^verbatim>\<open>catch\<close> block, which sets the error and logs it.
\<close>

theorem wait_failure_counterexample:
  "fst (handleMint unconfirmed_env sample_state) = Inr () \<and>
   fst (handleClaim unconfirmed_env sample_state) = Inr () \<and>
   snd (handleMint unconfirmed_env sample_state) =
     [SetSuccess [], SetError [], SetTxHash [], SetTxType [], SetError [], SetIsMinting True,
      WriteContract (mint_request unconfirmed_env sample_state 2500000 50000000000),
      SetTxHash ''0xabcdef'', SetTxType ''mint'', SetSuccess msg_mint_success,
      ConsoleLog ''mint:'' ''0xabcdef'', WaitForTransactionReceipt ''0xabcdef'',
      SetError ''Transaction fail'', ConsoleError ''Mint fail:'' (Error ''timeout''),
      SetIsMinting False] \<and>
   error (after sample_state (handleClaim unconfirmed_env sample_state)) = ''Transaction fail''"
proof -
  have v: "fst (validateInputs unconfirmed_env sample_state) = Inr True"
    by (simp add: other_envs_valid sample_valid)
  have p: "parseUnits unconfirmed_env (amount sample_state)
     (if isZeroAddress unconfirmed_env sample_state then 18 else tokenDecimals sample_state) =
     Inr 2500000"
    by (simp add: other_envs_zero sample_conversion)
  show ?thesis
    by (simp add: handleMint_valid [OF v] handleClaim_valid [OF v] p other_envs_simps
        after_simps)
qed

text \<open>
  C6, amended. When the inputs are valid, the submission has returned a non-empty hash
  and the wait for the receipt fails, the failure is caught by the flow's own
  \<^verbatim>\<open>try/catch\<close>: the flow sets the error \<^verbatim>\<open>Transaction fail\<close>, logs it, clears its
  busy flag and returns normally. The hash, the type and the success message set after
  the submission stay, and the balance is not fetched again.
\<close>

theorem wait_failure_is_caught:
  "fst (validateInputs w s) = Inr True \<and> publicClient w \<longrightarrow>
     (\<forall>n h e.
        parseUnits w (amount s) (if isZeroAddress w s then 18 else tokenDecimals s) = Inr n \<and>
        writeContract w (mint_request w s n 50000000000) = Inr h \<and> h \<noteq> [] \<and>
        waitForTransactionReceipt w h = Inl e \<longrightarrow>
          handleMint w s =
            (Inr (),
             [SetSuccess [], SetError [], SetTxHash [], SetTxType [], SetError [],
              SetIsMinting True, WriteContract (mint_request w s n 50000000000),
              SetTxHash h, SetTxType ''mint'', SetSuccess msg_mint_success,
              ConsoleLog ''mint:'' h, WaitForTransactionReceipt h,
              SetError ''Transaction fail'', ConsoleError ''Mint fail:'' e,
              SetIsMinting False])) \<and>
     (\<forall>n h e.
        parseUnits w (amount s) (if isZeroAddress w s then 18 else tokenDecimals s) = Inr n \<and>
        writeContract w (claim_request w s n) = Inr h \<and> h \<noteq> [] \<and>
        waitForTransactionReceipt w h = Inl e \<longrightarrow>
          handleClaim w s =
            (Inr (),
             [SetSuccess [], SetError [], SetTxHash [], SetTxType [], SetError [],
              SetIsClaiming True, WriteContract (claim_request w s n),
              SetTxHash h, SetTxType ''claim'', SetSuccess msg_claim_success,
              ConsoleLog ''claim:'' h, WaitForTransactionReceipt h,
              SetError ''Transaction fail'', ConsoleError ''Claim fail:'' e,
              SetIsClaiming False]))"
proof (intro impI conjI allI)
  fix n h e
  assume "fst (validateInputs w s) = Inr True \<and> publicClient w"
    and "parseUnits w (amount s) (if isZeroAddress w s then 18 else tokenDecimals s) = Inr n \<and>
        writeContract w (mint_request w s n 50000000000) = Inr h \<and> h \<noteq> [] \<and>
        waitForTransactionReceipt w h = Inl e"
  then show "handleMint w s =
            (Inr (),
             [SetSuccess [], SetError [], SetTxHash [], SetTxType [], SetError [],
              SetIsMinting True, WriteContract (mint_request w s n 50000000000),
              SetTxHash h, SetTxType ''mint'', SetSuccess msg_mint_success,
              ConsoleLog ''mint:'' h, WaitForTransactionReceipt h,
              SetError ''Transaction fail'', ConsoleError ''Mint fail:'' e,
              SetIsMinting False])"
    by (simp add: handleMint_valid)
next
  fix n h e
  assume "fst (validateInputs w s) = Inr True \<and> publicClient w"
    and "parseUnits w (amount s) (if isZeroAddress w s then 18 else tokenDecimals s) = Inr n \<and>
        writeContract w (claim_request w s n) = Inr h \<and> h \<noteq> [] \<and>
        waitForTransactionReceipt w h = Inl e"
  then show "handleClaim w s =
            (Inr (),
             [SetSuccess [], SetError [], SetTxHash [], SetTxType [], SetError [],
              SetIsClaiming True, WriteContract (claim_request w s n),
              SetTxHash h, SetTxType ''claim'', SetSuccess msg_claim_success,
              ConsoleLog ''claim:'' h, WaitForTransactionReceipt h,
              SetError ''Transaction fail'', ConsoleError ''Claim fail:'' e,
              SetIsClaiming False])"
    by (simp add: handleClaim_valid)
qed

theorem wait_failure_is_caught_witness:
  "fst (validateInputs unconfirmed_env sample_state) = Inr True \<and>
   publicClient unconfirmed_env \<and>
   waitForTransactionReceipt unconfirmed_env ''0xabcdef'' = Inl (Error ''timeout'') \<and>
   handleClaim unconfirmed_env sample_state =
     (Inr (),
      [SetSuccess [], SetError [], SetTxHash [], SetTxType [], SetError [],
       SetIsClaiming True, WriteContract (claim_request unconfirmed_env sample_state 2500000),
       SetTxHash ''0xabcdef'', SetTxType ''claim'', SetSuccess msg_claim_success,
       ConsoleLog ''claim:'' ''0xabcdef'', WaitForTransactionReceipt ''0xabcdef'',
       SetError ''Transaction fail'', ConsoleError ''Claim fail:'' (Error ''timeout''),
       SetIsClaiming False])"
proof -
  have v: "fst (validateInputs unconfirmed_env sample_state) = Inr True"
    by (simp add: other_envs_valid sample_valid)
  have p: "parseUnits unconfirmed_env (amount sample_state)
     (if isZeroAddress unconfirmed_env sample_state then 18 else tokenDecimals sample_state) =
     Inr 2500000"
    by (simp add: other_envs_zero sample_conversion)
  show ?thesis
    using wait_failure_is_caught [of unconfirmed_env sample_state] v p
    by (simp add: other_envs_simps)
qed

text \<open>
  C3. In both flows, when the inputs are valid, the amount submitted is the amount field
  converted with 18 decimals when the token address is the zero address and with the
  stored token decimals otherwise: the first request of the flow is the contract write
  whose third argument is that integer. The amount \<^verbatim>\<open>1.5\<close> converted with 18 decimals is
  1500000000000000000 and the amount \<^verbatim>\<open>2.5\<close> converted with 6 decimals is 2500000, so
  these are the amounts submitted for the zero address (whatever the stored decimals) and
  for a token with stored decimals 6.
\<close>

theorem conversion_precision:
  "(fst (validateInputs w s) = Inr True \<longrightarrow>
      (\<forall>n. parseUnits w (amount s)
              (if toLowerCase (tokenAddress s) = toLowerCase zeroAddress then 18
               else tokenDecimals s) = Inr n \<longrightarrow>
         take 1 (network_calls (handleMint w s)) =
           [WriteContract (mint_request w s n 50000000000)] \<and>
         take 1 (network_calls (handleClaim w s)) = [WriteContract (claim_request w s n)] \<and>
         args (mint_request w s n 50000000000) =
           [Str (tokenAddress s), Str (receiverAddress s), BigInt n] \<and>
         args (claim_request w s n) =
           [Str (tokenAddress s), Str (receiverAddress s), BigInt n])) \<and>
   parseUnits w ''1.5'' 18 = Inr 1500000000000000000 \<and>
   parseUnits w ''2.5'' 6 = Inr 2500000 \<and>
   (fst (validateInputs w s) = Inr True \<and> tokenAddress s = zeroAddress \<and>
    amount s = ''1.5'' \<longrightarrow>
      take 1 (network_calls (handleMint w s)) =
        [WriteContract (mint_request w s 1500000000000000000 50000000000)] \<and>
      take 1 (network_calls (handleClaim w s)) =
        [WriteContract (claim_request w s 1500000000000000000)]) \<and>
   (fst (validateInputs w s) = Inr True \<and>
    toLowerCase (tokenAddress s) \<noteq> toLowerCase zeroAddress \<and>
    tokenDecimals s = 6 \<and> amount s = ''2.5'' \<longrightarrow>
      take 1 (network_calls (handleMint w s)) =
        [WriteContract (mint_request w s 2500000 50000000000)] \<and>
      take 1 (network_calls (handleClaim w s)) = [WriteContract (claim_request w s 2500000)])"
proof -
  have general: "take 1 (network_calls (handleMint w s)) =
           [WriteContract (mint_request w s n 50000000000)] \<and>
         take 1 (network_calls (handleClaim w s)) = [WriteContract (claim_request w s n)]"
    if v: "fst (validateInputs w s) = Inr True"
      and p: "parseUnits w (amount s)
              (if toLowerCase (tokenAddress s) = toLowerCase zeroAddress then 18
               else tokenDecimals s) = Inr n" for n
    using p
    by (simp add: handleMint_valid [OF v] handleClaim_valid [OF v] isZeroAddress_valid [OF v]
        network_calls_simps)
  have requests: "args (mint_request w s n 50000000000) =
           [Str (tokenAddress s), Str (receiverAddress s), BigInt n] \<and>
         args (claim_request w s n) =
           [Str (tokenAddress s), Str (receiverAddress s), BigInt n]" for n
    by (simp add: mint_request_def claim_request_def)
  have native: "take 1 (network_calls (handleMint w s)) =
        [WriteContract (mint_request w s 1500000000000000000 50000000000)] \<and>
      take 1 (network_calls (handleClaim w s)) =
        [WriteContract (claim_request w s 1500000000000000000)]"
    if "fst (validateInputs w s) = Inr True" "tokenAddress s = zeroAddress" "amount s = ''1.5''"
    using that general [of 1500000000000000000] by (simp add: parseUnits_scenarios)
  have token: "take 1 (network_calls (handleMint w s)) =
        [WriteContract (mint_request w s 2500000 50000000000)] \<and>
      take 1 (network_calls (handleClaim w s)) = [WriteContract (claim_request w s 2500000)]"
    if "fst (validateInputs w s) = Inr True"
      "toLowerCase (tokenAddress s) \<noteq> toLowerCase zeroAddress"
      "tokenDecimals s = 6" "amount s = ''2.5''"
    using that general [of 2500000] by (simp add: parseUnits_scenarios)
  show ?thesis
    using general requests native token parseUnits_scenarios [of w] by blast
qed

theorem conversion_precision_witness:
  "fst (validateInputs sample_env native_state) = Inr True \<and>
   tokenDecimals native_state = 6 \<and>
   take 1 (network_calls (handleMint sample_env native_state)) =
     [WriteContract (mint_request sample_env native_state 1500000000000000000 50000000000)] \<and>
   fst (validateInputs sample_env sample_state) = Inr True \<and>
   take 1 (network_calls (handleClaim sample_env sample_state)) =
     [WriteContract (claim_request sample_env sample_state 2500000)]"
  using conversion_precision [of sample_env native_state]
    conversion_precision [of sample_env sample_state]
    sample_valid
  by (simp add: sample_state_simps sample_token_not_zero)


section \<open>The debounced balance fetch: properties\<close>



























end
